theory Spec2Isabelle
  imports
    Complex_Main
    "HOL-Library.Option_ord"
    "HOL-Library.Product_Lexorder"
    "HOL-Library.Char_ord"
    "HOL-Library.List_Lexorder"
    "HOL-Library.Sublist"
    "HOL-Library.Word"
begin

section \<open>The measurement pipeline of \<^verbatim>\<open>Pipline.py\<close>\<close>

text \<open>
  The script is a straight line of pandas calls on one data frame. The frame is modelled
  row-wise, as a list of records, and every call as a function from the frame before it
  to the frame after it. A missing cell (pandas' NaN, NaT) is \<open>None\<close>.

  A numeric column is either \<^verbatim>\<open>int64\<close> or \<^verbatim>\<open>float64\<close>. An integer is a 64-bit word,
  read as a signed number, so that sums wrap around as numpy's do. A float is modelled by
  a \<open>real\<close>: rounding and the non-finite floats are outside the model, and so are columns
  of unsigned or boolean type.
\<close>

subsection \<open>Data\<close>

datatype num = IntV "64 word" | FloatV real

fun num_value :: "num \<Rightarrow> real" where
  "num_value (IntV w) = real_of_int (sint w)"
| "num_value (FloatV x) = x"

type_synonym date = "nat \<times> nat \<times> nat"  \<comment> \<open>year, month, day: ordered chronologically\<close>

text \<open>
  A parsed timestamp: the wall-clock date and time as written, and the UTC offset in
  minutes when the text carries one.
\<close>

record datetime =
  dt_date :: date
  dt_hour :: nat
  dt_minute :: nat
  dt_second :: nat
  dt_offset :: "int option"

text \<open>
  A row as \<^verbatim>\<open>read_csv\<close> (line 4) leaves it, with every column read as text: an empty cell is
  missing, any other is its text.
\<close>

record raw_record =
  raw_serial :: "string option"
  raw_timestamp :: "string option"
  raw_date :: "string option"
  raw_grid_purchase :: "string option"
  raw_grid_feedin :: "string option"
  raw_direct_consumption :: "string option"

text \<open>A row after the conversions of lines 10 to 18.\<close>

record norm_record =
  serial :: "string option"
  timestamp :: "datetime option"
  date :: "date option"
  grid_purchase :: "num option"
  grid_feedin :: "num option"
  direct_consumption :: "num option"

text \<open>Line 27 adds the column \<^verbatim>\<open>hour\<close>.\<close>

record clean_record = norm_record +
  hour :: "nat option"

text \<open>
  A row of \<^verbatim>\<open>hourly_totals\<close> after line 30, and after line 33 adds the flag column. A total
  is kept by its value.
\<close>

record totals_row =
  h_date :: "date option"
  h_hour :: "nat option"
  h_grid_purchase :: real
  h_grid_feedin :: real

record hourly_row = totals_row +
  is_peak_feed_in_hour :: "bool option"

text \<open>A row of \<^verbatim>\<open>summary\<close> (line 36); the index \<^verbatim>\<open>serial\<close> is its key.\<close>

record summary_row =
  s_serial :: "string option"
  s_grid_purchase :: real
  s_grid_feedin :: real

subsection \<open>Type conversion (lines 7 to 18)\<close>

text \<open>
  The text parsers of \<^verbatim>\<open>pd.to_numeric\<close> and \<^verbatim>\<open>pd.to_datetime\<close> are library code and are
  parameters of the model. Each fails with a \<^verbatim>\<open>ValueError\<close> on a text it does not accept; with
  \<^verbatim>\<open>errors='coerce'\<close> such a failure becomes a missing value, and a cell that is already
  missing stays missing.
\<close>

datatype error = ValueError

definition coerce :: "(string \<Rightarrow> error + 'a) \<Rightarrow> string option \<Rightarrow> 'a option" where
  "coerce p cell =
     (case cell of
        None \<Rightarrow> None
      | Some s \<Rightarrow> (case p s of Inl e \<Rightarrow> None | Inr v \<Rightarrow> Some v))"

text \<open>
  \<^verbatim>\<open>convert_to_numeric\<close> (lines 7 and 8) works on a whole column. The number parser \<open>pn\<close> reads
  one cell, as an integer or as a float. A column whose cells are all integers keeps them
  (\<^verbatim>\<open>int64\<close>: the function has no cast to float); in any other column, in particular one
  with a missing or unparseable cell, every number becomes a float (\<^verbatim>\<open>float64\<close>).
\<close>

fun is_int :: "num option \<Rightarrow> bool" where
  "is_int (Some (IntV w)) = True"
| "is_int c = False"

definition astype_float :: "num \<Rightarrow> num" where
  "astype_float v = FloatV (num_value v)"

definition convert_to_numeric :: "(string \<Rightarrow> error + num) \<Rightarrow> string option list \<Rightarrow> num option list" where
  "convert_to_numeric pn column =
     (let parsed = map (coerce pn) column
      in if list_all is_int parsed then parsed else map (map_option astype_float) parsed)"

text \<open>
  \<^verbatim>\<open>pd.to_datetime(column, errors='coerce')\<close> (lines 15 and 18) also works on a whole column.
  It fixes how to read the column from the column's first non-missing text; \<open>pt s0\<close> is the
  library's parser for a column that starts with the text \<open>s0\<close>. Every cell is read with
  that parser, a failure giving a missing value. If the values so read do not all carry the
  same UTC offset the call raises \<^verbatim>\<open>ValueError\<close> (mixed time zones), also under
  \<^verbatim>\<open>errors='coerce'\<close>.
\<close>

fun first_non_null :: "string option list \<Rightarrow> string option" where
  "first_non_null [] = None"
| "first_non_null (None # cells) = first_non_null cells"
| "first_non_null (Some s # cells) = Some s"

definition column_parser ::
  "(string \<Rightarrow> string \<Rightarrow> error + datetime) \<Rightarrow> string option list \<Rightarrow> string \<Rightarrow> error + datetime" where
  "column_parser pt column =
     (case first_non_null column of
        None \<Rightarrow> (\<lambda>s. Inl ValueError)
      | Some s0 \<Rightarrow> pt s0)"

definition parse_column ::
  "(string \<Rightarrow> string \<Rightarrow> error + datetime) \<Rightarrow> string option list \<Rightarrow> datetime option list" where
  "parse_column pt column = map (coerce (column_parser pt column)) column"

definition mixed_offsets :: "datetime option list \<Rightarrow> bool" where
  "mixed_offsets parsed \<longleftrightarrow>
     (\<exists>a \<in> set parsed. \<exists>b \<in> set parsed.
        a \<noteq> None \<and> b \<noteq> None \<and> map_option dt_offset a \<noteq> map_option dt_offset b)"

definition to_datetime ::
  "(string \<Rightarrow> string \<Rightarrow> error + datetime) \<Rightarrow> string option list \<Rightarrow> error + datetime option list" where
  "to_datetime pt column =
     (let parsed = parse_column pt column
      in if mixed_offsets parsed then Inl ValueError else Inr parsed)"

text \<open>
  Lines 10 to 18 replace five columns of the frame, one after the other; the first call
  that raises ends the script. The rows are put together again by position.
\<close>

definition normalize_frame ::
  "(string \<Rightarrow> error + num) \<Rightarrow> (string \<Rightarrow> string \<Rightarrow> error + datetime) \<Rightarrow> raw_record list
     \<Rightarrow> error + norm_record list" where
  "normalize_frame pn pt df =
     (let purchase = convert_to_numeric pn (map raw_grid_purchase df);
          feedin = convert_to_numeric pn (map raw_grid_feedin df);
          consumption = convert_to_numeric pn (map raw_direct_consumption df)
      in case to_datetime pt (map raw_timestamp df) of
           Inl e \<Rightarrow> Inl e
         | Inr stamps \<Rightarrow>
             (case to_datetime pt (map raw_date df) of
                Inl e \<Rightarrow> Inl e
              | Inr dates \<Rightarrow>
                  Inr (map (\<lambda>i. \<lparr> serial = raw_serial (df ! i),
                                   timestamp = stamps ! i,
                                   date = map_option dt_date (dates ! i),
                                   grid_purchase = purchase ! i,
                                   grid_feedin = feedin ! i,
                                   direct_consumption = consumption ! i \<rparr>)
                         [0..<length df])))"

subsection \<open>Cleaning (lines 21 to 27)\<close>

text \<open>
  \<^verbatim>\<open>drop_duplicates()\<close> with its defaults (all columns, \<^verbatim>\<open>keep='first'\<close>) scans the rows
  in order and drops each row already seen; two missing cells count as equal.
\<close>

fun drop_seen :: "'a list \<Rightarrow> 'a list \<Rightarrow> 'a list" where
  "drop_seen seen [] = []"
| "drop_seen seen (x # xs) =
     (if x \<in> set seen then drop_seen seen xs else x # drop_seen (x # seen) xs)"

definition drop_duplicates :: "'a list \<Rightarrow> 'a list" where
  "drop_duplicates df = drop_seen [] df"

text \<open>\<^verbatim>\<open>dropna(subset=[...], how='all')\<close> drops the rows whose three energy cells are all missing.\<close>

definition all_energy_missing :: "'a norm_record_scheme \<Rightarrow> bool" where
  "all_energy_missing r \<longleftrightarrow>
     grid_purchase r = None \<and> grid_feedin r = None \<and> direct_consumption r = None"

definition dropna_energy :: "'a norm_record_scheme list \<Rightarrow> 'a norm_record_scheme list" where
  "dropna_energy df = filter (\<lambda>r. \<not> all_energy_missing r) df"

definition cleaner :: "'a norm_record_scheme list \<Rightarrow> 'a norm_record_scheme list" where
  "cleaner df = dropna_energy (drop_duplicates df)"

definition add_hour :: "norm_record \<Rightarrow> clean_record" where
  "add_hour r =
     \<lparr> serial = serial r, timestamp = timestamp r, date = date r,
       grid_purchase = grid_purchase r, grid_feedin = grid_feedin r,
       direct_consumption = direct_consumption r,
       hour = map_option dt_hour (timestamp r) \<rparr>"

definition clean_records :: "norm_record list \<Rightarrow> clean_record list" where
  "clean_records df = map add_hour (cleaner df)"

subsection \<open>Grouping and sums (lines 30 and 36)\<close>

text \<open>
  \<^verbatim>\<open>groupby\<close> with its defaults (\<^verbatim>\<open>dropna=True\<close>, \<^verbatim>\<open>sort=True\<close>): the rows in which a key
  cell is missing are left out, the distinct keys of the other rows are sorted, and each
  key's group holds its rows in frame order.
\<close>

definition groupby :: "('r \<Rightarrow> 'k::linorder) \<Rightarrow> ('k \<Rightarrow> bool) \<Rightarrow> 'r list \<Rightarrow> ('k \<times> 'r list) list" where
  "groupby key isna df =
     (let kept = filter (\<lambda>r. \<not> isna (key r)) df
      in map (\<lambda>k. (k, filter (\<lambda>r. key r = k) kept)) (sort (remdups (map key kept))))"

text \<open>
  \<^verbatim>\<open>sum()\<close> of a group adds in the column's type. In an \<^verbatim>\<open>int64\<close> column the cells of the
  group are integers and their sum wraps around at 64 bits. In a \<^verbatim>\<open>float64\<close> column missing
  cells are skipped, and the sum of no cells is 0. After line 12 a cell is an integer only
  in an \<^verbatim>\<open>int64\<close> column, so the cells of a group tell the type of their column.
\<close>

fun int_cell :: "num option \<Rightarrow> 64 word" where
  "int_cell (Some (IntV w)) = w"
| "int_cell c = 0"

definition float_cell :: "num option \<Rightarrow> real" where
  "float_cell c = (case c of None \<Rightarrow> 0 | Some v \<Rightarrow> num_value v)"

definition group_sum :: "num option list \<Rightarrow> real" where
  "group_sum cells =
     (if list_all is_int cells
      then real_of_int (sint (sum_list (map int_cell cells)))
      else sum_list (map float_cell cells))"

definition date_hour :: "'a clean_record_scheme \<Rightarrow> date option \<times> nat option" where
  "date_hour r = (date r, hour r)"

definition isna_date_hour :: "date option \<times> nat option \<Rightarrow> bool" where
  "isna_date_hour k \<longleftrightarrow> fst k = None \<or> snd k = None"

definition group_totals :: "clean_record list \<Rightarrow> totals_row list" where
  "group_totals df =
     map (\<lambda>(k, g). \<lparr> h_date = fst k, h_hour = snd k,
                     h_grid_purchase = group_sum (map grid_purchase g),
                     h_grid_feedin = group_sum (map grid_feedin g) \<rparr>)
       (groupby date_hour isna_date_hour df)"

subsection \<open>The peak flag (line 33)\<close>

text \<open>
  \<^verbatim>\<open>x.max()\<close> of a group's feed-in totals; the maximum of an empty series is missing.
\<close>

fun series_max :: "real list \<Rightarrow> real option" where
  "series_max [] = None"
| "series_max (x # xs) = Some (foldl max x xs)"

text \<open>
  \<^verbatim>\<open>groupby("date")[...].transform(lambda x: x == x.max())\<close> gives each row the comparison of
  its own total with the maximum of its date's rows. A row whose date is missing is in no
  group and gets a missing flag.
\<close>

definition peak_flag :: "totals_row list \<Rightarrow> totals_row \<Rightarrow> bool option" where
  "peak_flag ts t =
     (case h_date t of
        None \<Rightarrow> None
      | Some d \<Rightarrow>
          Some (Some (h_grid_feedin t) =
                series_max (map h_grid_feedin (filter (\<lambda>u. h_date u = Some d) ts))))"

definition add_peak_flag :: "totals_row list \<Rightarrow> totals_row \<Rightarrow> hourly_row" where
  "add_peak_flag ts t =
     \<lparr> h_date = h_date t, h_hour = h_hour t,
       h_grid_purchase = h_grid_purchase t, h_grid_feedin = h_grid_feedin t,
       is_peak_feed_in_hour = peak_flag ts t \<rparr>"

definition flag_peaks :: "totals_row list \<Rightarrow> hourly_row list" where
  "flag_peaks ts = map (add_peak_flag ts) ts"

definition hourly_totals :: "clean_record list \<Rightarrow> hourly_row list" where
  "hourly_totals df = flag_peaks (group_totals df)"

subsection \<open>The summary by serial (line 36)\<close>

definition serial_totals :: "clean_record list \<Rightarrow> summary_row list" where
  "serial_totals df =
     map (\<lambda>(k, g). \<lparr> s_serial = k,
                     s_grid_purchase = group_sum (map grid_purchase g),
                     s_grid_feedin = group_sum (map grid_feedin g) \<rparr>)
       (groupby serial (\<lambda>k. k = None) df)"

text \<open>
  \<^verbatim>\<open>sort_values(by='grid_purchase', ascending=False)\<close>: pandas reverses the rows, sorts them
  ascending and reverses the result. Which of two rows with equal totals comes first is
  left to the library's sorting routine; the model takes a stable one.
\<close>

definition sort_values_desc :: "summary_row list \<Rightarrow> summary_row list" where
  "sort_values_desc rows = rev (sort_key s_grid_purchase (rev rows))"

definition summary :: "clean_record list \<Rightarrow> summary_row list" where
  "summary df = sort_values_desc (serial_totals df)"

subsection \<open>The whole script\<close>

definition pipeline_clean ::
  "(string \<Rightarrow> error + num) \<Rightarrow> (string \<Rightarrow> string \<Rightarrow> error + datetime) \<Rightarrow> raw_record list
     \<Rightarrow> error + clean_record list" where
  "pipeline_clean pn pt raw =
     (case normalize_frame pn pt raw of
        Inl e \<Rightarrow> Inl e
      | Inr df \<Rightarrow> Inr (clean_records df))"

subsection \<open>A sample frame\<close>

text \<open>
  Readings of January 2024, written by day and hour, in \<^verbatim>\<open>float64\<close> columns. The first three
  rows are the example of the specification (a reading, its exact duplicate, a reading with
  no energy value); the last two have no date and no timestamp.
\<close>

definition reading ::
  "string option \<Rightarrow> (nat \<times> nat) option \<Rightarrow> nat option \<Rightarrow> real option \<Rightarrow> real option \<Rightarrow> real option
     \<Rightarrow> norm_record" where
  "reading s ts d p f c =
     \<lparr> serial = s,
       timestamp = map_option (\<lambda>(day, h).
         \<lparr> dt_date = (2024, 1, day), dt_hour = h, dt_minute = 0, dt_second = 0,
           dt_offset = None \<rparr>) ts,
       date = map_option (\<lambda>day. (2024, 1, day)) d,
       grid_purchase = map_option FloatV p, grid_feedin = map_option FloatV f,
       direct_consumption = map_option FloatV c \<rparr>"

definition sample_frame :: "norm_record list" where
  "sample_frame =
     [ reading (Some ''S1'') (Some (1, 5)) (Some 1) (Some 10) (Some 0) (Some 10),
       reading (Some ''S1'') (Some (1, 5)) (Some 1) (Some 10) (Some 0) (Some 10),
       reading (Some ''S1'') (Some (1, 6)) (Some 1) None None None,
       reading (Some ''S2'') (Some (1, 5)) (Some 1) (Some 2) (Some 3) None,
       reading (Some ''S2'') (Some (1, 6)) (Some 1) (Some 20) (Some 3) None,
       reading (Some ''S1'') (Some (1, 9)) (Some 1) (Some 1) (Some 1) None,
       reading (Some ''S3'') (Some (2, 7)) (Some 2) None None (Some 1),
       reading (Some ''S2'') (Some (1, 8)) None (Some 7) (Some 3) None,
       reading None None (Some 1) (Some 4) None (Some 1) ]"

definition no_date_reading :: norm_record where
  "no_date_reading = reading (Some ''S2'') (Some (1, 8)) None (Some 7) (Some 3) None"

definition no_hour_reading :: norm_record where
  "no_hour_reading = reading None None (Some 1) (Some 4) None (Some 1)"

definition bucket :: "nat \<Rightarrow> nat \<Rightarrow> real \<Rightarrow> real \<Rightarrow> bool \<Rightarrow> hourly_row" where
  "bucket day h p f peak =
     \<lparr> h_date = Some (2024, 1, day), h_hour = Some h, h_grid_purchase = p, h_grid_feedin = f,
       is_peak_feed_in_hour = Some peak \<rparr>"


subsection \<open>Sample parsers and raw frames\<close>










section \<open>Properties\<close>

subsection \<open>Deduplication and the energy filter\<close>

lemma set_drop_seen: "set (drop_seen seen xs) = set xs - set seen"
  by (induction xs arbitrary: seen) auto

lemma distinct_drop_seen: "distinct (drop_seen seen xs)"
  by (induction xs arbitrary: seen) (auto simp: set_drop_seen)

lemma subseq_drop_seen: "subseq (drop_seen seen xs) xs"
  by (induction xs arbitrary: seen) auto

lemma drop_seen_id: "distinct xs \<Longrightarrow> set xs \<inter> set seen = {} \<Longrightarrow> drop_seen seen xs = xs"
  by (induction xs arbitrary: seen) auto

text \<open>The survivors are the rows at the positions whose row is neither seen nor earlier in the list.\<close>

lemma drop_seen_nths:
  "drop_seen seen xs = nths xs {i. i < length xs \<and> xs ! i \<notin> set seen \<union> set (take i xs)}"
proof (induction xs arbitrary: seen)
  case Nil
  show ?case by simp
next
  case (Cons x xs)
  let ?A = "{i. i < length (x # xs) \<and> (x # xs) ! i \<notin> set seen \<union> set (take i (x # xs))}"
  have shift: "{j. Suc j \<in> ?A} = {j. j < length xs \<and> xs ! j \<notin> set (x # seen) \<union> set (take j xs)}"
    by auto
  show ?case
  proof (cases "x \<in> set seen")
    case True
    then have "0 \<notin> ?A" by simp
    moreover from True have "set (x # seen) = set seen" by auto
    ultimately show ?thesis
      using Cons.IH [of seen] True shift by (simp add: nths_Cons)
  next
    case False
    then have "0 \<in> ?A" by simp
    then show ?thesis
      using Cons.IH [of "x # seen"] False shift by (simp add: nths_Cons)
  qed
qed

lemma inj_on_add_hour: "inj_on add_hour A"
  by (rule inj_onI) (auto simp: add_hour_def norm_record.equality)

lemma distinct_cleaner: "distinct (cleaner df)"
  by (simp add: cleaner_def dropna_energy_def drop_duplicates_def distinct_drop_seen)

lemma set_cleaner: "set (cleaner df) = {r \<in> set df. \<not> all_energy_missing r}"
  by (auto simp: cleaner_def dropna_energy_def drop_duplicates_def set_drop_seen)

lemma clean_records_sample:
  "clean_records sample_frame =
     map add_hour
       [ reading (Some ''S1'') (Some (1, 5)) (Some 1) (Some 10) (Some 0) (Some 10),
         reading (Some ''S2'') (Some (1, 5)) (Some 1) (Some 2) (Some 3) None,
         reading (Some ''S2'') (Some (1, 6)) (Some 1) (Some 20) (Some 3) None,
         reading (Some ''S1'') (Some (1, 9)) (Some 1) (Some 1) (Some 1) None,
         reading (Some ''S3'') (Some (2, 7)) (Some 2) None None (Some 1),
         reading (Some ''S2'') (Some (1, 8)) None (Some 7) (Some 3) None,
         reading None None (Some 1) (Some 4) None (Some 1) ]"
  by code_simp

text \<open>
  C4: the deduplication pass removes every row equal to an earlier row and nothing else: its
  result has no two equal rows, has the rows of the input, and is the input restricted to
  the positions whose row occurs at no earlier position (so first occurrences are kept, in
  their order). Consequently the Clean Records contain no two equal rows.
\<close>

theorem drop_duplicates_keeps_first:
  "distinct (drop_duplicates df)
   \<and> set (drop_duplicates df) = set df
   \<and> drop_duplicates df = nths df {i. i < length df \<and> df ! i \<notin> set (take i df)}
   \<and> subseq (drop_duplicates df) df
   \<and> distinct (clean_records ndf)"
proof -
  have a: "distinct (drop_duplicates df)"
    by (simp add: drop_duplicates_def distinct_drop_seen)
  have b: "set (drop_duplicates df) = set df"
    by (simp add: drop_duplicates_def set_drop_seen)
  have c: "drop_duplicates df = nths df {i. i < length df \<and> df ! i \<notin> set (take i df)}"
    using drop_seen_nths [of "[]" df] by (simp add: drop_duplicates_def)
  have d: "subseq (drop_duplicates df) df"
    by (simp add: drop_duplicates_def subseq_drop_seen)
  have e: "distinct (clean_records ndf)"
    by (simp add: clean_records_def distinct_map distinct_cleaner inj_on_add_hour)
  from a b c d e show ?thesis by (intro conjI)
qed

text \<open>
  C5: every Clean Record has at least one of its three energy values, and every row of the
  normalized frame that has at least one of them is among the Clean Records.
\<close>

theorem clean_records_energy:
  "(\<forall>c \<in> set (clean_records df).
      grid_purchase c \<noteq> None \<or> grid_feedin c \<noteq> None \<or> direct_consumption c \<noteq> None)
   \<and> (\<forall>r \<in> set df.
        grid_purchase r \<noteq> None \<or> grid_feedin r \<noteq> None \<or> direct_consumption r \<noteq> None
        \<longrightarrow> add_hour r \<in> set (clean_records df))"
  by (auto simp: clean_records_def set_cleaner all_energy_missing_def add_hour_def)

theorem clean_records_energy_witness:
  "add_hour (reading (Some ''S3'') (Some (2, 7)) (Some 2) None None (Some 1))
     \<in> set (clean_records sample_frame)
   \<and> direct_consumption (add_hour (reading (Some ''S3'') (Some (2, 7)) (Some 2) None None (Some 1)))
       \<noteq> None
   \<and> grid_purchase (add_hour (reading (Some ''S3'') (Some (2, 7)) (Some 2) None None (Some 1)))
       = None"
proof -
  let ?r = "reading (Some ''S3'') (Some (2, 7)) (Some 2) None None (Some 1)"
  have mem: "?r \<in> set sample_frame"
    by (simp add: sample_frame_def)
  have present: "direct_consumption ?r \<noteq> None"
    by (simp add: reading_def)
  from clean_records_energy [of sample_frame] mem present
  have kept: "add_hour ?r \<in> set (clean_records sample_frame)"
    by blast
  with clean_records_energy [of sample_frame]
  have "grid_purchase (add_hour ?r) \<noteq> None \<or> grid_feedin (add_hour ?r) \<noteq> None
        \<or> direct_consumption (add_hour ?r) \<noteq> None"
    by blast
  then show ?thesis
    using kept by (simp add: add_hour_def reading_def)
qed

text \<open>
  C7: the Cleaner is idempotent: deduplication followed by the energy filter, applied to its
  own output, returns that output.
\<close>

theorem cleaner_idempotent: "cleaner (cleaner df) = cleaner df"
proof -
  have "drop_duplicates (cleaner df) = cleaner df"
    unfolding drop_duplicates_def by (rule drop_seen_id) (simp_all add: distinct_cleaner)
  moreover have "dropna_energy (cleaner df) = cleaner df"
    by (simp add: cleaner_def dropna_energy_def)
  ultimately show ?thesis
    by (simp add: cleaner_def [of "cleaner df"])
qed

subsection \<open>Type conversion\<close>


lemma length_convert_to_numeric [simp]: "length (convert_to_numeric pn column) = length column"
  by (simp add: convert_to_numeric_def Let_def)



lemma length_parse_column [simp]: "length (parse_column pt column) = length column"
  by (simp add: parse_column_def)


lemma to_datetime_Inr:
  "to_datetime pt column = Inr parsed \<longleftrightarrow>
     \<not> mixed_offsets (parse_column pt column) \<and> parsed = parse_column pt column"
  by (auto simp: to_datetime_def Let_def)

text \<open>A column that comes out of the conversion holds integers only, or no integer at all.\<close>

lemma convert_to_numeric_one_type:
  "list_all is_int (convert_to_numeric pn column)
   \<or> list_all (\<lambda>c. \<not> is_int c) (convert_to_numeric pn column)"
proof -
  have "\<not> is_int (map_option astype_float c)" for c
    by (cases c) (simp_all add: astype_float_def)
  then show ?thesis
    by (simp add: convert_to_numeric_def Let_def list_all_iff)
qed

text \<open>
  In such a column every group of cells that is not empty tells the type of the column, as
  \<open>group_sum\<close> takes it.
\<close>

lemma group_tells_column_type:
  assumes "list_all is_int column \<or> list_all (\<lambda>c. \<not> is_int c) column"
    and "set cells \<subseteq> set column" and "cells \<noteq> []"
  shows "list_all is_int cells \<longleftrightarrow> list_all is_int column"
proof
  assume a: "list_all is_int cells"
  from assms(3) obtain c where c: "c \<in> set cells" by (cases cells) auto
  with a have "is_int c" by (simp add: list_all_iff)
  moreover from c assms(2) have "c \<in> set column" by blast
  ultimately have "\<not> list_all (\<lambda>c. \<not> is_int c) column" by (auto simp: list_all_iff)
  with assms(1) show "list_all is_int column" by blast
next
  assume "list_all is_int column"
  with assms(2) show "list_all is_int cells" by (auto simp: list_all_iff)
qed

lemma normalize_frame_Inr:
  assumes "normalize_frame pn pt df = Inr rows"
  shows "rows =
     map (\<lambda>i. \<lparr> serial = raw_serial (df ! i),
                timestamp = parse_column pt (map raw_timestamp df) ! i,
                date = map_option dt_date (parse_column pt (map raw_date df) ! i),
                grid_purchase = convert_to_numeric pn (map raw_grid_purchase df) ! i,
                grid_feedin = convert_to_numeric pn (map raw_grid_feedin df) ! i,
                direct_consumption = convert_to_numeric pn (map raw_direct_consumption df) ! i \<rparr>)
       [0..<length df]"
  using assms
  by (auto simp: normalize_frame_def Let_def to_datetime_Inr split: sum.splits)






text \<open>
  The type of a numeric column is fixed at lines 10 to 12, over the whole frame. Every group
  of rows that the aggregations of lines 30 and 36 form, out of the cleaned frame, tells
  that type by its own cells.
\<close>

lemma normalized_columns:
  assumes "normalize_frame pn pt raw = Inr rows"
  shows "map grid_purchase rows = convert_to_numeric pn (map raw_grid_purchase raw)"
    and "map grid_feedin rows = convert_to_numeric pn (map raw_grid_feedin raw)"
proof -
  note rows = normalize_frame_Inr [OF assms]
  let ?p = "convert_to_numeric pn (map raw_grid_purchase raw)"
  let ?f = "convert_to_numeric pn (map raw_grid_feedin raw)"
  have "map grid_purchase rows = map (\<lambda>i. ?p ! i) [0..<length ?p]"
    by (simp add: rows o_def)
  then show "map grid_purchase rows = ?p"
    by (simp only: map_nth)
  have "map grid_feedin rows = map (\<lambda>i. ?f ! i) [0..<length ?f]"
    by (simp add: rows o_def)
  then show "map grid_feedin rows = ?f"
    by (simp only: map_nth)
qed

lemma clean_cells:
  assumes "set g \<subseteq> set (clean_records rows)"
  shows "set (map grid_purchase g) \<subseteq> set (map grid_purchase rows)"
    and "set (map grid_feedin g) \<subseteq> set (map grid_feedin rows)"
  using assms by (auto simp: clean_records_def set_cleaner add_hour_def)

lemma group_type_is_column_type:
  assumes "normalize_frame pn pt raw = Inr rows"
    and "set g \<subseteq> set (clean_records rows)" and "g \<noteq> []"
  shows "list_all is_int (map grid_purchase g) \<longleftrightarrow> list_all is_int (map grid_purchase rows)"
    and "list_all is_int (map grid_feedin g) \<longleftrightarrow> list_all is_int (map grid_feedin rows)"
proof -
  from assms(3) have ne: "map grid_purchase g \<noteq> []" "map grid_feedin g \<noteq> []"
    by simp_all
  show "list_all is_int (map grid_purchase g) \<longleftrightarrow> list_all is_int (map grid_purchase rows)"
    using convert_to_numeric_one_type [of pn "map raw_grid_purchase raw"]
      clean_cells(1) [OF assms(2)] ne(1)
    unfolding normalized_columns(1) [OF assms(1), symmetric]
    by (rule group_tells_column_type)
  show "list_all is_int (map grid_feedin g) \<longleftrightarrow> list_all is_int (map grid_feedin rows)"
    using convert_to_numeric_one_type [of pn "map raw_grid_feedin raw"]
      clean_cells(2) [OF assms(2)] ne(2)
    unfolding normalized_columns(2) [OF assms(1), symmetric]
    by (rule group_tells_column_type)
qed

subsection \<open>Sums in the column's type\<close>

lemma float_cells_all_missing: "\<forall>c \<in> set cells. c = None \<Longrightarrow> sum_list (map float_cell cells) = 0"
  by (induction cells) (auto simp: float_cell_def)

lemma group_sum_all_missing:
  assumes "\<forall>c \<in> set cells. c = None"
  shows "group_sum cells = 0"
proof (cases cells)
  case Nil
  then show ?thesis by (simp add: group_sum_def)
next
  case (Cons c cs)
  with assms have "\<not> list_all is_int cells" by simp
  with assms show ?thesis
    by (simp add: group_sum_def float_cells_all_missing)
qed

lemma group_sum_fill:
  "group_sum (map (\<lambda>r. Some (case f r of None \<Rightarrow> FloatV 0 | Some v \<Rightarrow> v)) g)
     = group_sum (map f g)"
proof -
  let ?fill = "\<lambda>c. Some (case c of None \<Rightarrow> FloatV 0 | Some v \<Rightarrow> v)"
  have i: "is_int (?fill c) = is_int c" for c
    by (cases c) simp_all
  have w: "int_cell (?fill c) = int_cell c" for c
    by (cases c rule: int_cell.cases) simp_all
  have x: "float_cell (?fill c) = float_cell c" for c
    by (cases c) (simp_all add: float_cell_def)
  show ?thesis
    by (simp add: group_sum_def list_all_iff o_def i w x)
qed







subsection \<open>Groups\<close>

text \<open>The groups are those of the keys present in the frame that are not missing.\<close>

lemma set_groupby:
  "set (groupby key isna df) =
     (\<lambda>k. (k, filter (\<lambda>r. key r = k) df)) ` {k \<in> key ` set df. \<not> isna k}"
proof -
  have same: "filter (\<lambda>r. key r = k) (filter (\<lambda>r. \<not> isna (key r)) df) = filter (\<lambda>r. key r = k) df"
    if "\<not> isna k" for k
    using that by (induction df) auto
  have same': "filter (\<lambda>r. \<not> isna (key r) \<and> key r = k) df = filter (\<lambda>r. key r = k) df"
    if "\<not> isna k" for k
    using that by (intro filter_cong) auto
  have keys: "key ` {r \<in> set df. \<not> isna (key r)} = {k \<in> key ` set df. \<not> isna k}"
    by auto
  have "set (groupby key isna df) =
          (\<lambda>k. (k, filter (\<lambda>r. key r = k) (filter (\<lambda>r. \<not> isna (key r)) df))) ` {k \<in> key ` set df. \<not> isna k}"
    by (simp add: groupby_def Let_def keys)
  also have "\<dots> = (\<lambda>k. (k, filter (\<lambda>r. key r = k) df)) ` {k \<in> key ` set df. \<not> isna k}"
    by (rule image_cong) (simp_all add: same')
  finally show ?thesis .
qed

lemma groupby_filter_notna:
  "groupby key isna (filter (\<lambda>r. \<not> isna (key r)) df) = groupby key isna df"
  by (simp add: groupby_def)

lemma groupby_map:
  assumes "\<And>r. key (f r) = key r"
  shows "groupby key isna (map f df) = map (\<lambda>(k, g). (k, map f g)) (groupby key isna df)"
proof -
  have "filter (\<lambda>r. P (key r)) (map f df) = map f (filter (\<lambda>r. P (key r)) df)" for P
    by (simp add: filter_map o_def assms)
  note fm = this [of "\<lambda>k. \<not> isna k"] this [of "\<lambda>k. k = k'" for k']
  have keys: "map key (map f xs) = map key xs" for xs
    by (simp add: assms)
  show ?thesis
    by (simp add: groupby_def Let_def fm keys filter_map o_def assms)
qed

lemma set_group_totals:
  "set (group_totals df) =
     (\<lambda>k. \<lparr> h_date = fst k, h_hour = snd k,
             h_grid_purchase = group_sum (map grid_purchase (filter (\<lambda>r. date_hour r = k) df)),
             h_grid_feedin = group_sum (map grid_feedin (filter (\<lambda>r. date_hour r = k) df)) \<rparr>)
       ` {k \<in> date_hour ` set df. \<not> isna_date_hour k}"
  by (simp add: group_totals_def set_groupby image_image)

lemma group_totalsE:
  assumes "t \<in> set (group_totals df)"
  obtains d h where "h_date t = Some d" and "h_hour t = Some h"
    and "\<exists>r \<in> set df. date r = Some d \<and> hour r = Some h"
    and "h_grid_purchase t =
           group_sum (map grid_purchase (filter (\<lambda>r. date r = Some d \<and> hour r = Some h) df))"
    and "h_grid_feedin t =
           group_sum (map grid_feedin (filter (\<lambda>r. date r = Some d \<and> hour r = Some h) df))"
proof -
  from assms obtain k where k: "k \<in> date_hour ` set df" "\<not> isna_date_hour k"
    and t: "t = \<lparr> h_date = fst k, h_hour = snd k,
             h_grid_purchase = group_sum (map grid_purchase (filter (\<lambda>r. date_hour r = k) df)),
             h_grid_feedin = group_sum (map grid_feedin (filter (\<lambda>r. date_hour r = k) df)) \<rparr>"
    unfolding set_group_totals by blast
  from k(2) obtain d h where dh: "k = (Some d, Some h)"
    by (cases k) (auto simp: isna_date_hour_def)
  have eq: "(\<lambda>r. date_hour r = k) = (\<lambda>r::clean_record. date r = Some d \<and> hour r = Some h)"
    by (auto simp: date_hour_def dh)
  from k(1) have "\<exists>r \<in> set df. date r = Some d \<and> hour r = Some h"
    by (auto simp: date_hour_def dh)
  then show thesis
    using that [of d h] t dh eq by simp
qed

lemma set_hourly_totals:
  "set (hourly_totals df) = add_peak_flag (group_totals df) ` set (group_totals df)"
  by (simp add: hourly_totals_def flag_peaks_def)

lemma hourly_totalsE:
  assumes "b \<in> set (hourly_totals df)"
  obtains d h where "h_date b = Some d" and "h_hour b = Some h"
    and "\<exists>r \<in> set df. date r = Some d \<and> hour r = Some h"
    and "h_grid_purchase b =
           group_sum (map grid_purchase (filter (\<lambda>r. date r = Some d \<and> hour r = Some h) df))"
    and "h_grid_feedin b =
           group_sum (map grid_feedin (filter (\<lambda>r. date r = Some d \<and> hour r = Some h) df))"
proof -
  from assms obtain t where t: "t \<in> set (group_totals df)" and b: "b = add_peak_flag (group_totals df) t"
    unfolding set_hourly_totals by blast
  from t show thesis
  proof (rule group_totalsE)
    fix d h
    assume "h_date t = Some d" "h_hour t = Some h"
      "\<exists>r \<in> set df. date r = Some d \<and> hour r = Some h"
      "h_grid_purchase t =
           group_sum (map grid_purchase (filter (\<lambda>r. date r = Some d \<and> hour r = Some h) df))"
      "h_grid_feedin t =
           group_sum (map grid_feedin (filter (\<lambda>r. date r = Some d \<and> hour r = Some h) df))"
    then show thesis
      using that [of d h] by (simp add: b add_peak_flag_def)
  qed
qed

lemma group_totals_fill:
  fixes df :: "clean_record list"
  defines "fill \<equiv> \<lambda>r::clean_record. r\<lparr> grid_purchase := Some (case grid_purchase r of None \<Rightarrow> FloatV 0 | Some v \<Rightarrow> v),
                         grid_feedin := Some (case grid_feedin r of None \<Rightarrow> FloatV 0 | Some v \<Rightarrow> v) \<rparr>"
  shows "group_totals (map fill df) = group_totals df"
    and "serial_totals (map fill df) = serial_totals df"
proof -
  have p: "grid_purchase (fill r) = Some (case grid_purchase r of None \<Rightarrow> FloatV 0 | Some v \<Rightarrow> v)" for r
    by (simp add: fill_def)
  have f: "grid_feedin (fill r) = Some (case grid_feedin r of None \<Rightarrow> FloatV 0 | Some v \<Rightarrow> v)" for r
    by (simp add: fill_def)
  have "groupby date_hour isna_date_hour (map fill df)
          = map (\<lambda>(k, g). (k, map fill g)) (groupby date_hour isna_date_hour df)"
    by (rule groupby_map) (simp add: fill_def date_hour_def)
  then show "group_totals (map fill df) = group_totals df"
    by (simp add: group_totals_def split_def o_def p f group_sum_fill)
  have "groupby serial (\<lambda>k. k = None) (map fill df)
          = map (\<lambda>(k, g). (k, map fill g)) (groupby serial (\<lambda>k. k = None) df)"
    by (rule groupby_map) (simp add: fill_def)
  then show "serial_totals (map fill df) = serial_totals df"
    by (simp add: serial_totals_def split_def o_def p f group_sum_fill)
qed

lemma set_summary: "set (summary df) = set (serial_totals df)"
  by (simp add: summary_def sort_values_desc_def)

lemma set_serial_totals:
  "set (serial_totals df) =
     (\<lambda>k. \<lparr> s_serial = k,
             s_grid_purchase = group_sum (map grid_purchase (filter (\<lambda>r. serial r = k) df)),
             s_grid_feedin = group_sum (map grid_feedin (filter (\<lambda>r. serial r = k) df)) \<rparr>)
       ` {k \<in> serial ` set df. k \<noteq> None}"
  by (simp add: serial_totals_def set_groupby image_image)

lemma summaryE:
  assumes "s \<in> set (summary df)"
  obtains k where "s_serial s = Some k"
    and "\<exists>r \<in> set df. serial r = Some k"
    and "s_grid_purchase s = group_sum (map grid_purchase (filter (\<lambda>r. serial r = Some k) df))"
    and "s_grid_feedin s = group_sum (map grid_feedin (filter (\<lambda>r. serial r = Some k) df))"
  using assms unfolding set_summary set_serial_totals by force

lemma hourly_totals_sample:
  "hourly_totals (clean_records sample_frame) =
     [bucket 1 5 12 3 True, bucket 1 6 20 3 True, bucket 1 9 1 1 False, bucket 2 7 0 0 True]"
  by code_simp

lemma summary_sample:
  "summary (clean_records sample_frame) =
     [ \<lparr> s_serial = Some ''S2'', s_grid_purchase = 29, s_grid_feedin = 9 \<rparr>,
       \<lparr> s_serial = Some ''S1'', s_grid_purchase = 11, s_grid_feedin = 1 \<rparr>,
       \<lparr> s_serial = Some ''S3'', s_grid_purchase = 0, s_grid_feedin = 0 \<rparr> ]"
  by code_simp

subsection \<open>Hourly totals\<close>





text \<open>
  C1, as the code has it: the grouping leaves out the Clean Records whose date or hour is
  missing. Every row of the hourly totals has a date and an hour, the totals are those of
  the frame without the records that miss one of the two, and every record that has both
  lies in the row keyed by its date and hour.
\<close>

theorem hourly_totals_skips_missing_keys:
  "(\<forall>b \<in> set (hourly_totals df). h_date b \<noteq> None \<and> h_hour b \<noteq> None)
   \<and> hourly_totals (filter (\<lambda>r. date r \<noteq> None \<and> hour r \<noteq> None) df) = hourly_totals df
   \<and> (\<forall>r \<in> set df. date r \<noteq> None \<and> hour r \<noteq> None \<longrightarrow>
        (\<exists>b \<in> set (hourly_totals df). h_date b = date r \<and> h_hour b = hour r))"
proof (intro conjI ballI impI)
  fix b assume "b \<in> set (hourly_totals df)"
  then show "h_date b \<noteq> None" "h_hour b \<noteq> None"
    by (auto elim: hourly_totalsE)
next
  have "(\<lambda>r::clean_record. date r \<noteq> None \<and> hour r \<noteq> None) = (\<lambda>r. \<not> isna_date_hour (date_hour r))"
    by (simp add: isna_date_hour_def date_hour_def)
  then show "hourly_totals (filter (\<lambda>r. date r \<noteq> None \<and> hour r \<noteq> None) df) = hourly_totals df"
    by (simp add: hourly_totals_def group_totals_def groupby_filter_notna)
next
  fix r assume r: "r \<in> set df" "date r \<noteq> None \<and> hour r \<noteq> None"
  then have "date_hour r \<in> {k \<in> date_hour ` set df. \<not> isna_date_hour k}"
    by (simp add: isna_date_hour_def date_hour_def)
  then have "\<exists>t \<in> set (group_totals df). h_date t = date r \<and> h_hour t = hour r"
    unfolding set_group_totals by (force simp: date_hour_def)
  then show "\<exists>b \<in> set (hourly_totals df). h_date b = date r \<and> h_hour b = hour r"
    unfolding set_hourly_totals by (auto simp: add_peak_flag_def)
qed

theorem hourly_totals_skips_missing_keys_witness:
  "bucket 1 6 20 3 True \<in> set (hourly_totals (clean_records sample_frame))
   \<and> h_date (bucket 1 6 20 3 True) \<noteq> None
   \<and> add_hour no_date_reading \<in> set (clean_records sample_frame)
   \<and> hourly_totals (filter (\<lambda>r. date r \<noteq> None \<and> hour r \<noteq> None) (clean_records sample_frame))
       = hourly_totals (clean_records sample_frame)"
proof -
  have mem: "bucket 1 6 20 3 True \<in> set (hourly_totals (clean_records sample_frame))"
    by (simp add: hourly_totals_sample)
  have nd: "add_hour no_date_reading \<in> set (clean_records sample_frame)"
    by (simp add: clean_records_sample no_date_reading_def)
  from hourly_totals_skips_missing_keys [of "clean_records sample_frame"] mem nd show ?thesis
    by blast
qed

text \<open>
  C1 as stated fails: a record with no date and a record with no hour, both Clean Records,
  give no row at all in the hourly totals.
\<close>

theorem hourly_totals_missing_key_counterexample:
  "date (add_hour no_date_reading) = None
   \<and> hour (add_hour no_hour_reading) = None
   \<and> clean_records [no_date_reading, no_hour_reading]
       = [add_hour no_date_reading, add_hour no_hour_reading]
   \<and> hourly_totals (clean_records [no_date_reading, no_hour_reading]) = []"
  by code_simp

text \<open>
  C9: a group in which every record misses a flow value has total 0 for that column, in the
  hourly totals and in the summary; and putting 0 for every missing purchase and feed-in
  value changes neither output, so a total does not tell a missing value from a zero.
\<close>

theorem all_missing_total_zero:
  "(\<forall>b \<in> set (hourly_totals df).
      ((\<forall>r \<in> set df. date r = h_date b \<and> hour r = h_hour b \<longrightarrow> grid_purchase r = None)
         \<longrightarrow> h_grid_purchase b = 0)
      \<and> ((\<forall>r \<in> set df. date r = h_date b \<and> hour r = h_hour b \<longrightarrow> grid_feedin r = None)
         \<longrightarrow> h_grid_feedin b = 0))
   \<and> (\<forall>s \<in> set (summary df).
      ((\<forall>r \<in> set df. serial r = s_serial s \<longrightarrow> grid_purchase r = None) \<longrightarrow> s_grid_purchase s = 0)
      \<and> ((\<forall>r \<in> set df. serial r = s_serial s \<longrightarrow> grid_feedin r = None) \<longrightarrow> s_grid_feedin s = 0))
   \<and> hourly_totals
        (map (\<lambda>r. r\<lparr> grid_purchase := Some (case grid_purchase r of None \<Rightarrow> FloatV 0 | Some v \<Rightarrow> v),
                     grid_feedin := Some (case grid_feedin r of None \<Rightarrow> FloatV 0 | Some v \<Rightarrow> v) \<rparr>) df)
       = hourly_totals df
   \<and> summary
        (map (\<lambda>r. r\<lparr> grid_purchase := Some (case grid_purchase r of None \<Rightarrow> FloatV 0 | Some v \<Rightarrow> v),
                     grid_feedin := Some (case grid_feedin r of None \<Rightarrow> FloatV 0 | Some v \<Rightarrow> v) \<rparr>) df)
       = summary df"
proof (intro conjI ballI impI)
  fix b assume b: "b \<in> set (hourly_totals df)"
  { assume "\<forall>r \<in> set df. date r = h_date b \<and> hour r = h_hour b \<longrightarrow> grid_purchase r = None"
    with b show "h_grid_purchase b = 0"
      by (elim hourly_totalsE) (simp add: group_sum_all_missing) }
  { assume "\<forall>r \<in> set df. date r = h_date b \<and> hour r = h_hour b \<longrightarrow> grid_feedin r = None"
    with b show "h_grid_feedin b = 0"
      by (elim hourly_totalsE) (simp add: group_sum_all_missing) }
next
  fix s assume s: "s \<in> set (summary df)"
  { assume "\<forall>r \<in> set df. serial r = s_serial s \<longrightarrow> grid_purchase r = None"
    with s show "s_grid_purchase s = 0"
      by (elim summaryE) (simp add: group_sum_all_missing) }
  { assume "\<forall>r \<in> set df. serial r = s_serial s \<longrightarrow> grid_feedin r = None"
    with s show "s_grid_feedin s = 0"
      by (elim summaryE) (simp add: group_sum_all_missing) }
next
  show "hourly_totals
        (map (\<lambda>r. r\<lparr> grid_purchase := Some (case grid_purchase r of None \<Rightarrow> FloatV 0 | Some v \<Rightarrow> v),
                     grid_feedin := Some (case grid_feedin r of None \<Rightarrow> FloatV 0 | Some v \<Rightarrow> v) \<rparr>) df)
       = hourly_totals df"
    by (simp only: hourly_totals_def group_totals_fill)
  show "summary
        (map (\<lambda>r. r\<lparr> grid_purchase := Some (case grid_purchase r of None \<Rightarrow> FloatV 0 | Some v \<Rightarrow> v),
                     grid_feedin := Some (case grid_feedin r of None \<Rightarrow> FloatV 0 | Some v \<Rightarrow> v) \<rparr>) df)
       = summary df"
    by (simp only: summary_def group_totals_fill)
qed

theorem all_missing_total_zero_witness:
  "bucket 2 7 0 0 True \<in> set (hourly_totals (clean_records sample_frame))
   \<and> grid_feedin (add_hour (reading (Some ''S3'') (Some (2, 7)) (Some 2) None None (Some 1))) = None
   \<and> h_grid_feedin (bucket 2 7 0 0 True) = 0
   \<and> h_grid_purchase (bucket 2 7 0 0 True) = 0"
proof -
  let ?df = "clean_records sample_frame"
  let ?b = "bucket 2 7 0 0 True"
  have mem: "?b \<in> set (hourly_totals ?df)"
    by (simp add: hourly_totals_sample)
  have p: "\<forall>r \<in> set ?df. date r = h_date ?b \<and> hour r = h_hour ?b \<longrightarrow> grid_purchase r = None"
    by (simp add: clean_records_sample bucket_def add_hour_def reading_def)
  have f: "\<forall>r \<in> set ?df. date r = h_date ?b \<and> hour r = h_hour ?b \<longrightarrow> grid_feedin r = None"
    by (simp add: clean_records_sample bucket_def add_hour_def reading_def)
  have "grid_feedin (add_hour (reading (Some ''S3'') (Some (2, 7)) (Some 2) None None (Some 1))) = None"
    by (simp add: add_hour_def reading_def)
  with all_missing_total_zero [of ?df] mem p f show ?thesis
    by blast
qed

subsection \<open>The peak flag\<close>

lemma series_max_Max: "xs \<noteq> [] \<Longrightarrow> series_max xs = Some (Max (set xs))"
proof (cases xs)
  case Nil
  then show "xs \<noteq> [] \<Longrightarrow> ?thesis" by simp
next
  case (Cons x ys)
  have "foldl max x ys = fold max ys x"
    by (simp add: foldl_conv_fold max.commute)
  moreover have "Max (set (x # ys)) = fold max ys x"
    by (rule Max.set_eq_fold)
  ultimately show ?thesis
    by (simp only: Cons series_max.simps)
qed

lemma peak_flag_Max:
  assumes "t \<in> set ts" and "h_date t = Some d"
  shows "peak_flag ts t = Some (h_grid_feedin t = Max (h_grid_feedin ` {u \<in> set ts. h_date u = Some d}))"
proof -
  let ?xs = "map h_grid_feedin (filter (\<lambda>u. h_date u = Some d) ts)"
  from assms have mem: "h_grid_feedin t \<in> set ?xs" by auto
  have "?xs \<noteq> []"
  proof
    assume e: "?xs = []"
    from mem show False unfolding e by simp
  qed
  then have "series_max ?xs = Some (Max (set ?xs))" by (rule series_max_Max)
  moreover have "set ?xs = h_grid_feedin ` {u \<in> set ts. h_date u = Some d}" by auto
  ultimately show ?thesis
    using assms(2) by (simp add: peak_flag_def)
qed

lemma partition_feedin:
  "h_grid_feedin ` {c \<in> add_peak_flag ts ` set ts. h_date c = d}
     = h_grid_feedin ` {u \<in> set ts. h_date u = d}"
  by (auto simp: add_peak_flag_def image_iff) force

text \<open>
  C2: every row of the hourly totals carries a flag, and for every date the rows flagged
  true are exactly the rows of that date whose feed-in total is the maximum over the rows
  of that date; rows that tie for the maximum are all flagged.
\<close>

theorem peak_flag_marks_maxima:
  "(\<forall>b \<in> set (hourly_totals df). is_peak_feed_in_hour b \<noteq> None)
   \<and> {b \<in> set (hourly_totals df). h_date b = d \<and> is_peak_feed_in_hour b = Some True}
     = {b \<in> set (hourly_totals df). h_date b = d \<and>
          h_grid_feedin b = Max (h_grid_feedin ` {c \<in> set (hourly_totals df). h_date c = d})}"
proof -
  let ?T = "group_totals df"
  have flag: "is_peak_feed_in_hour b =
      Some (h_grid_feedin b = Max (h_grid_feedin ` {c \<in> set (hourly_totals df). h_date c = h_date b}))"
    if "b \<in> set (hourly_totals df)" for b
  proof -
    from that obtain t where t: "t \<in> set ?T" and b: "b = add_peak_flag ?T t"
      unfolding set_hourly_totals by blast
    from t obtain d' where d': "h_date t = Some d'"
      by (auto elim: group_totalsE)
    have "is_peak_feed_in_hour b = peak_flag ?T t" "h_grid_feedin b = h_grid_feedin t"
      "h_date b = Some d'"
      by (simp_all add: b add_peak_flag_def d')
    then show ?thesis
      using peak_flag_Max [OF t d'] by (simp add: set_hourly_totals partition_feedin)
  qed
  have "\<forall>b \<in> set (hourly_totals df). is_peak_feed_in_hour b \<noteq> None"
    using flag by simp
  moreover have "{b \<in> set (hourly_totals df). h_date b = d \<and> is_peak_feed_in_hour b = Some True}
     = {b \<in> set (hourly_totals df). h_date b = d \<and>
          h_grid_feedin b = Max (h_grid_feedin ` {c \<in> set (hourly_totals df). h_date c = d})}"
    using flag by auto
  ultimately show ?thesis by (intro conjI)
qed

theorem peak_flag_marks_maxima_witness:
  "{b \<in> set (hourly_totals (clean_records sample_frame)). h_date b = Some (2024, 1, 1) \<and>
      h_grid_feedin b = Max (h_grid_feedin `
        {c \<in> set (hourly_totals (clean_records sample_frame)). h_date c = Some (2024, 1, 1)})}
   = {bucket 1 5 12 3 True, bucket 1 6 20 3 True}"
proof -
  have "{b \<in> set (hourly_totals (clean_records sample_frame)).
           h_date b = Some (2024, 1, 1) \<and> is_peak_feed_in_hour b = Some True}
        = {bucket 1 5 12 3 True, bucket 1 6 20 3 True}"
    by (auto simp: hourly_totals_sample bucket_def)
  with peak_flag_marks_maxima [of "clean_records sample_frame" "Some (2024, 1, 1)"] show ?thesis
    by simp
qed

subsection \<open>The summary by serial\<close>

lemma sorted_sort_values_desc:
  "sorted_wrt (\<lambda>x y. x \<ge> y) (map s_grid_purchase (sort_values_desc rows))"
proof -
  have "sorted (map s_grid_purchase (sort_key s_grid_purchase (rev rows)))"
    by (rule sorted_sort_key)
  then show ?thesis
    by (simp add: sort_values_desc_def rev_map [symmetric] sorted_wrt_rev)
qed

text \<open>
  C8: the summary is sorted non-increasing by purchase total: each row's total is at least
  the total of the row after it.
\<close>

theorem summary_sorted_desc:
  "sorted_wrt (\<lambda>x y. x \<ge> y) (map s_grid_purchase (summary df))
   \<and> (\<forall>i. Suc i < length (summary df) \<longrightarrow>
        s_grid_purchase (summary df ! i) \<ge> s_grid_purchase (summary df ! Suc i))"
proof -
  have s: "sorted_wrt (\<lambda>x y. x \<ge> y) (map s_grid_purchase (summary df))"
    unfolding summary_def by (rule sorted_sort_values_desc)
  have "s_grid_purchase (summary df ! i) \<ge> s_grid_purchase (summary df ! Suc i)"
    if "Suc i < length (summary df)" for i
    using sorted_wrt_nth_less [OF s, of i "Suc i"] that by simp
  with s show ?thesis by blast
qed

theorem summary_sorted_desc_witness:
  "map s_grid_purchase (summary (clean_records sample_frame)) = [29, 11, 0]
   \<and> s_grid_purchase (summary (clean_records sample_frame) ! 0)
       \<ge> s_grid_purchase (summary (clean_records sample_frame) ! Suc 0)"
proof -
  have len: "Suc 0 < length (summary (clean_records sample_frame))"
    by (simp add: summary_sample)
  have "map s_grid_purchase (summary (clean_records sample_frame)) = [29, 11, 0]"
    by (simp add: summary_sample)
  with summary_sorted_desc [of "clean_records sample_frame"] len show ?thesis
    by blast
qed

text \<open>
  C10: a Clean Record with a missing serial is left out of the summary: the summary is that
  of the frame without such records, every row has a serial, and a row's totals are the
  sums, in the column's type, over the records of its serial alone.
\<close>

theorem summary_skips_missing_serial:
  "summary (filter (\<lambda>r. serial r \<noteq> None) df) = summary df
   \<and> (\<forall>s \<in> set (summary df). s_serial s \<noteq> None
        \<and> s_grid_purchase s
            = group_sum (map grid_purchase (filter (\<lambda>r. serial r = s_serial s) df))
        \<and> s_grid_feedin s
            = group_sum (map grid_feedin (filter (\<lambda>r. serial r = s_serial s) df)))"
proof (intro conjI ballI)
  show "summary (filter (\<lambda>r. serial r \<noteq> None) df) = summary df"
    using groupby_filter_notna [of serial "\<lambda>k. k = None" df]
    by (simp add: summary_def serial_totals_def)
next
  fix s assume s: "s \<in> set (summary df)"
  then show "s_serial s \<noteq> None"
    by (auto elim: summaryE)
  from s show "s_grid_purchase s
      = group_sum (map grid_purchase (filter (\<lambda>r. serial r = s_serial s) df))"
    by (rule summaryE) simp
  from s show "s_grid_feedin s
      = group_sum (map grid_feedin (filter (\<lambda>r. serial r = s_serial s) df))"
    by (rule summaryE) simp
qed

theorem summary_skips_missing_serial_witness:
  "add_hour no_hour_reading \<in> set (clean_records sample_frame)
   \<and> serial (add_hour no_hour_reading) = None
   \<and> grid_purchase (add_hour no_hour_reading) = Some (FloatV 4)
   \<and> summary (filter (\<lambda>r. serial r \<noteq> None) (clean_records sample_frame))
       = summary (clean_records sample_frame)
   \<and> \<lparr> s_serial = Some ''S3'', s_grid_purchase = 0, s_grid_feedin = 0 \<rparr>
       \<in> set (summary (clean_records sample_frame))
   \<and> s_serial \<lparr> s_serial = Some ''S3'', s_grid_purchase = 0, s_grid_feedin = 0 \<rparr> \<noteq> None"
proof -
  have a: "add_hour no_hour_reading \<in> set (clean_records sample_frame)"
    by (simp add: clean_records_sample no_hour_reading_def)
  have b: "serial (add_hour no_hour_reading) = None"
    "grid_purchase (add_hour no_hour_reading) = Some (FloatV 4)"
    by (simp_all add: add_hour_def no_hour_reading_def reading_def)
  have c: "\<lparr> s_serial = Some ''S3'', s_grid_purchase = 0, s_grid_feedin = 0 \<rparr>
       \<in> set (summary (clean_records sample_frame))"
    by (simp add: summary_sample)
  from summary_skips_missing_serial [of "clean_records sample_frame"] a b c show ?thesis
    by blast
qed

end
